theory Spec2Isabelle
  imports Main
begin

section \<open>Values exchanged with the collaborators\<close>

text \<open>
  The controller \<^verbatim>\<open>controllers/bookinstanceController.js\<close> is orchestration code: every
  handler asks the storage layer for something and, in the callback, answers the request.
  The storage layer (mongoose models), the validation library (express-validator on top of
  validator.js) and the response object are collaborators that the file only calls. They are
  parameters of the model: a handler is a function of what the collaborators answer, and
  its result is the list of calls it issues on them, in order.
\<close>

type_synonym fault = string
  \<comment> \<open>the error object a storage callback receives as its first argument\<close>

datatype date_field = NoDate | NullDate | DateAt int
  \<comment> \<open>\<^verbatim>\<open>undefined\<close>, \<^verbatim>\<open>null\<close>, or a Date (milliseconds since the epoch)\<close>

record book_doc =
  book_id :: string
  title :: string

record 'b bookinstance_doc =
  doc_id :: string
  book :: 'b
  imprint :: "string option"
  status :: "string option"
  due_back :: date_field

type_synonym bookinstance = "string option bookinstance_doc"
  \<comment> \<open>a document whose book field is the reference as submitted (\<open>None\<close> is \<^verbatim>\<open>undefined\<close>)\<close>

type_synonym populated = "book_doc option bookinstance_doc"
  \<comment> \<open>a document after \<^verbatim>\<open>.populate('book')\<close>: the book itself, or \<^verbatim>\<open>null\<close> (\<open>None\<close>)\<close>

record verror =
  param :: string
  msg :: string
  val :: "string option"

datatype app_error = StorageFault fault | HttpError string nat
  \<comment> \<open>what is handed to \<^verbatim>\<open>next\<close>: a fault passed on, or \<^verbatim>\<open>new Error(message)\<close> with a status\<close>

datatype js_exception = ReferenceError string | TypeError string

datatype local =
    LStr string
  | LBooks "book_doc list"
  | LList "populated list"
  | LPopulated "populated option"
  | LInstance bookinstance
  | LErrors "verror list"

datatype effect =
    Render string "(string \<times> local) list"
  | Redirect string
  | Next app_error
  | Save bookinstance
  | FindByIdAndUpdate string bookinstance
  | Remove populated
  | Throw js_exception

record request =
  params_id :: string
  body :: "string \<Rightarrow> string option"
  \<comment> \<open>\<^verbatim>\<open>req.params.id\<close> and \<^verbatim>\<open>req.body\<close>; a field that was not submitted is \<open>None\<close>\<close>

text \<open>
  The primitives of validator.js that the chains of this file name. Their code is not part
  of the repository, so every theorem holds for whatever they compute.
\<close>

record validator_lib =
  trim :: "string \<Rightarrow> string"
  escape :: "string \<Rightarrow> string"
  isISO8601 :: "string \<Rightarrow> bool"
  toDate :: "string \<Rightarrow> int option"

text \<open>
  The two models and what they answer during one request.

  The \<^verbatim>\<open>url\<close> virtuals of \<^verbatim>\<open>models/bookinstance.js\<close> and \<^verbatim>\<open>models/book.js\<close> are declared
  outside this file. They are parameters here, functions of the record's identity, which is
  what the spec says of them (a location derived from the record's identity).

  \<open>new_id\<close> is the identity the \<^verbatim>\<open>BookInstance\<close> constructor assigns when it is given none.
  \<open>lookup_first\<close> says whether, in the update form's two parallel reads, the lookup of the
  record completes before the query of the book list.
\<close>

record models =
  new_id :: string
  bookinstance_url :: "string \<Rightarrow> string"
  book_url :: "string \<Rightarrow> string"
  find_bookinstances :: "fault + populated list"
  find_populated :: "string option \<Rightarrow> fault + populated option"
  find_bookinstance :: "string \<Rightarrow> fault + bookinstance option"
  find_books :: "fault + book_doc list"
  save :: "bookinstance \<Rightarrow> fault option"
  find_by_id_and_update :: "string \<Rightarrow> bookinstance \<Rightarrow> fault + bookinstance option"
  remove :: "populated \<Rightarrow> fault option"
  lookup_first :: bool

section \<open>Validation and sanitization chains\<close>

text \<open>
  \<^verbatim>\<open>express-validator/check\<close> and \<^verbatim>\<open>express-validator/filter\<close> are the entry points of
  express-validator 5. There a chain \<^verbatim>\<open>body(field, message)\<close> first applies its own
  sanitizers to a copy of the field (only when the field is a string), drops the field when
  it is optional and falsy, and then hands the value, converted to a string, to the
  validator; the request itself is left as it was. \<^verbatim>\<open>sanitizeBody(field)\<close> writes the
  sanitized value back into the request.
\<close>

record chain =
  field :: string
  message :: string
  optional_falsy :: bool
  validator :: "string \<Rightarrow> bool"
  sanitizers :: "(string \<Rightarrow> string) list"

definition to_string :: "string option \<Rightarrow> string" where
  "to_string v = (case v of None \<Rightarrow> [] | Some s \<Rightarrow> s)"

definition falsy :: "string option \<Rightarrow> bool" where
  "falsy v = (case v of None \<Rightarrow> True | Some s \<Rightarrow> s = [])"

definition run_sanitizers :: "(string \<Rightarrow> string) list \<Rightarrow> string option \<Rightarrow> string option" where
  "run_sanitizers ss v = (case v of None \<Rightarrow> None | Some s \<Rightarrow> Some (fold (\<lambda>f x. f x) ss s))"

definition run_chain :: "chain \<Rightarrow> (string \<Rightarrow> string option) \<Rightarrow> verror list" where
  "run_chain c b =
     (let v = run_sanitizers (sanitizers c) (b (field c))
      in if optional_falsy c \<and> falsy v then []
         else if validator c (to_string v) then []
         else [\<lparr>param = field c, msg = message c, val = b (field c)\<rparr>])"

definition isLength :: "nat \<Rightarrow> string \<Rightarrow> bool" where
  \<comment> \<open>\<^verbatim>\<open>isLength({min: m})\<close>, no upper bound\<close>
  "isLength m s = (m \<le> length s)"

definition book_check :: "validator_lib \<Rightarrow> chain" where
  "book_check lib =
     \<lparr>field = ''book'', message = ''Book must be specified'', optional_falsy = False,
      validator = isLength 1, sanitizers = [trim lib]\<rparr>"

definition imprint_check :: "validator_lib \<Rightarrow> chain" where
  "imprint_check lib =
     \<lparr>field = ''imprint'', message = ''Imprint must be specified'', optional_falsy = False,
      validator = isLength 1, sanitizers = [trim lib]\<rparr>"

definition due_back_check :: "validator_lib \<Rightarrow> chain" where
  "due_back_check lib =
     \<lparr>field = ''due_back'', message = ''Invalid date'', optional_falsy = True,
      validator = isISO8601 lib, sanitizers = []\<rparr>"

definition validationResult :: "validator_lib \<Rightarrow> (string \<Rightarrow> string option) \<Rightarrow> verror list" where
  "validationResult lib b =
     run_chain (book_check lib) b @ run_chain (imprint_check lib) b @ run_chain (due_back_check lib) b"

definition sanitizeBody ::
  "string \<Rightarrow> (string \<Rightarrow> string) list \<Rightarrow> (string \<Rightarrow> string option) \<Rightarrow> (string \<Rightarrow> string option)" where
  "sanitizeBody f ss b = b(f := run_sanitizers ss (b f))"

definition sanitize_text :: "validator_lib \<Rightarrow> (string \<Rightarrow> string option) \<Rightarrow> (string \<Rightarrow> string option)" where
  "sanitize_text lib b =
     sanitizeBody ''status'' [trim lib, escape lib]
       (sanitizeBody ''imprint'' [trim lib, escape lib]
          (sanitizeBody ''book'' [trim lib, escape lib] b))"

definition sanitize_date :: "validator_lib \<Rightarrow> string option \<Rightarrow> date_field" where
  \<comment> \<open>\<^verbatim>\<open>sanitizeBody('due_back').toDate()\<close>: a string becomes a Date, or \<^verbatim>\<open>null\<close> when it does not parse\<close>
  "sanitize_date lib v =
     (case v of None \<Rightarrow> NoDate
      | Some s \<Rightarrow> (case toDate lib s of None \<Rightarrow> NullDate | Some d \<Rightarrow> DateAt d))"

definition new_BookInstance ::
  "models \<Rightarrow> validator_lib \<Rightarrow> (string \<Rightarrow> string option) \<Rightarrow> string option \<Rightarrow> bookinstance" where
  \<comment> \<open>\<^verbatim>\<open>new BookInstance({book, imprint, status, due_back [, _id]})\<close> on the sanitized request\<close>
  "new_BookInstance m lib b given_id =
     \<lparr>doc_id = (case given_id of None \<Rightarrow> new_id m | Some i \<Rightarrow> i),
      book = sanitize_text lib b ''book'',
      imprint = sanitize_text lib b ''imprint'',
      status = sanitize_text lib b ''status'',
      due_back = sanitize_date lib (b ''due_back'')\<rparr>"

section \<open>The handlers\<close>

definition bookinstance_list :: "models \<Rightarrow> request \<Rightarrow> effect list" where
  \<comment> \<open>declared as \<^verbatim>\<open>function (req, res)\<close>: the name \<^verbatim>\<open>next\<close> of its error branch is bound
      neither by the handler nor by the module, so evaluating \<^verbatim>\<open>next(err)\<close> raises\<close>
  "bookinstance_list m req =
     (case find_bookinstances m of
        Inl err \<Rightarrow> [Throw (ReferenceError ''next'')]
      | Inr list_bookinstances \<Rightarrow>
          [Render ''bookinstance_list''
             [(''title'', LStr ''Book Instance List''),
              (''bookinstance_list'', LList list_bookinstances)]])"

definition bookinstance_detail :: "models \<Rightarrow> request \<Rightarrow> effect list" where
  "bookinstance_detail m req =
     (case find_populated m (Some (params_id req)) of
        Inl err \<Rightarrow> [Next (StorageFault err)]
      | Inr None \<Rightarrow> [Next (HttpError ''Book copy not found'' 404)]
      | Inr (Some bookinstance) \<Rightarrow>
          [Render ''bookinstance_detail''
             [(''title'', LStr ''Book''), (''bookinstance'', LPopulated (Some bookinstance))]])"

definition bookinstance_create_get :: "models \<Rightarrow> request \<Rightarrow> effect list" where
  "bookinstance_create_get m req =
     (case find_books m of
        Inl err \<Rightarrow> [Next (StorageFault err)]
      | Inr books \<Rightarrow>
          [Render ''bookinstance_form''
             [(''title'', LStr ''Create BookInstance''), (''book_list'', LBooks books)]])"

definition bookinstance_create_post :: "validator_lib \<Rightarrow> models \<Rightarrow> request \<Rightarrow> effect list" where
  "bookinstance_create_post lib m req =
     (let errors = validationResult lib (body req);
          bookinstance = new_BookInstance m lib (body req) None
      in if errors \<noteq> [] then
           (case find_books m of
              Inl err \<Rightarrow> [Next (StorageFault err)]
            | Inr books \<Rightarrow>
                [Render ''bookinstance_form''
                   [(''title'', LStr ''Create BookInstance''), (''book_list'', LBooks books),
                    (''errors'', LErrors errors), (''bookinstance'', LInstance bookinstance)]])
         else
           Save bookinstance #
           (case save m bookinstance of
              Some err \<Rightarrow> [Next (StorageFault err)]
            | None \<Rightarrow> [Redirect (bookinstance_url m (doc_id bookinstance))]))"

definition bookinstance_delete_get :: "models \<Rightarrow> request \<Rightarrow> effect list" where
  \<comment> \<open>the branch for \<^verbatim>\<open>null\<close> redirects without returning, so the render below it runs too\<close>
  "bookinstance_delete_get m req =
     (case find_populated m (Some (params_id req)) of
        Inl err \<Rightarrow> [Next (StorageFault err)]
      | Inr bookInstance \<Rightarrow>
          (if bookInstance = None then [Redirect ''/catalog/books''] else []) @
          [Render ''bookinstance_delete''
             [(''title'', LStr ''Delete Book Copy''), (''bookinstance'', LPopulated bookInstance)]])"

definition bookinstance_delete_post :: "models \<Rightarrow> request \<Rightarrow> effect list" where
  \<comment> \<open>\<^verbatim>\<open>bookInstance.remove\<close> and \<^verbatim>\<open>bookInstance.book.url\<close> read a property of \<^verbatim>\<open>null\<close> when
      the lookup, or the population of the book, found nothing\<close>
  "bookinstance_delete_post m req =
     (case find_populated m (body req ''bookinstanceid'') of
        Inl err \<Rightarrow> [Next (StorageFault err)]
      | Inr None \<Rightarrow> [Throw (TypeError ''remove'')]
      | Inr (Some bookInstance) \<Rightarrow>
          Remove bookInstance #
          (case remove m bookInstance of
             Some err \<Rightarrow> [Next (StorageFault err)]
           | None \<Rightarrow>
               (case book bookInstance of
                  None \<Rightarrow> [Throw (TypeError ''url'')]
                | Some b \<Rightarrow> [Redirect (book_url m (book_id b))])))"

definition parallel2 :: "bool \<Rightarrow> fault + 'a \<Rightarrow> fault + 'b \<Rightarrow> fault + ('a \<times> 'b)" where
  \<comment> \<open>\<^verbatim>\<open>async.parallel\<close> on two tasks: the first error to arrive is the one reported\<close>
  "parallel2 first_task_first ra rb =
     (if first_task_first then
        (case ra of Inl err \<Rightarrow> Inl err
         | Inr a \<Rightarrow> (case rb of Inl err \<Rightarrow> Inl err | Inr b \<Rightarrow> Inr (a, b)))
      else
        (case rb of Inl err \<Rightarrow> Inl err
         | Inr b \<Rightarrow> (case ra of Inl err \<Rightarrow> Inl err | Inr a \<Rightarrow> Inr (a, b))))"

definition bookinstance_update_get :: "models \<Rightarrow> request \<Rightarrow> effect list" where
  "bookinstance_update_get m req =
     (case parallel2 (lookup_first m) (find_bookinstance m (params_id req)) (find_books m) of
        Inl err \<Rightarrow> [Next (StorageFault err)]
      | Inr (None, book_list) \<Rightarrow> [Next (HttpError ''Book copy not found'' 404)]
      | Inr (Some bookinstance, book_list) \<Rightarrow>
          [Render ''bookinstance_form''
             [(''title'', LStr ''Update BookInstance''), (''bookinstance'', LInstance bookinstance),
              (''book_list'', LBooks book_list)]])"

definition bookinstance_update_post :: "validator_lib \<Rightarrow> models \<Rightarrow> request \<Rightarrow> effect list" where
  "bookinstance_update_post lib m req =
     (let errors = validationResult lib (body req);
          bookinstance = new_BookInstance m lib (body req) (Some (params_id req))
      in if errors \<noteq> [] then
           (case find_books m of
              Inl err \<Rightarrow> [Next (StorageFault err)]
            | Inr books \<Rightarrow>
                [Render ''bookinstance_form''
                   [(''title'', LStr ''Create BookInstance''), (''book_list'', LBooks books),
                    (''errors'', LErrors errors), (''bookinstance'', LInstance bookinstance)]])
         else
           FindByIdAndUpdate (params_id req) bookinstance #
           (case find_by_id_and_update m (params_id req) bookinstance of
              Inl err \<Rightarrow> [Next (StorageFault err)]
            | Inr None \<Rightarrow> [Throw (TypeError ''url'')]
            | Inr (Some updatedBookInstance) \<Rightarrow>
                [Redirect (bookinstance_url m (doc_id updatedBookInstance))]))"

section \<open>Reading a list of effects\<close>

fun written_by :: "effect \<Rightarrow> bookinstance list" where
  "written_by (Save d) = [d]"
| "written_by (FindByIdAndUpdate i d) = [d]"
| "written_by _ = []"

definition written :: "effect list \<Rightarrow> bookinstance list" where
  \<comment> \<open>the documents handed to the storage layer for writing\<close>
  "written effs = concat (map written_by effs)"

fun is_persistence :: "effect \<Rightarrow> bool" where
  "is_persistence (Save d) = True"
| "is_persistence (FindByIdAndUpdate i d) = True"
| "is_persistence (Remove d) = True"
| "is_persistence _ = False"

fun is_render :: "effect \<Rightarrow> bool" where
  "is_render (Render view locals) = True"
| "is_render _ = False"

fun is_redirect :: "effect \<Rightarrow> bool" where
  "is_redirect (Redirect url) = True"
| "is_redirect _ = False"

fun is_next :: "effect \<Rightarrow> bool" where
  "is_next (Next err) = True"
| "is_next _ = False"

fun errors_of :: "local option \<Rightarrow> verror list" where
  "errors_of (Some (LErrors es)) = es"
| "errors_of _ = []"

fun form_errors :: "effect \<Rightarrow> verror list" where
  \<comment> \<open>the error messages a render of the form view carries\<close>
  "form_errors (Render view locals) =
     (if view = ''bookinstance_form'' then errors_of (map_of locals ''errors'') else [])"
| "form_errors _ = []"

definition shown_errors :: "effect list \<Rightarrow> verror list" where
  "shown_errors effs = concat (map form_errors effs)"

section \<open>Sample collaborators, for evaluation on concrete requests\<close>

definition is_space :: "char \<Rightarrow> bool" where
  "is_space c = (c = CHR '' '' \<or> c = CHR 0x09 \<or> c = CHR 0x0A \<or> c = CHR 0x0D)"

definition strip :: "string \<Rightarrow> string" where
  "strip s = rev (dropWhile is_space (rev (dropWhile is_space s)))"

fun escape_char :: "char \<Rightarrow> string" where
  "escape_char c =
     (if c = CHR ''&'' then ''&amp;''
      else if c = CHR ''<'' then ''&lt;''
      else if c = CHR ''>'' then ''&gt;''
      else [c])"

definition is_digit :: "char \<Rightarrow> bool" where
  "is_digit c = (c \<in> set ''0123456789'')"

definition digit_val :: "char \<Rightarrow> int" where
  "digit_val c = int (length (takeWhile (\<lambda>d. d \<noteq> c) ''0123456789''))"

definition number :: "string \<Rightarrow> int" where
  "number ds = foldl (\<lambda>n c. 10 * n + digit_val c) 0 ds"

fun plain_date :: "string \<Rightarrow> bool" where
  \<comment> \<open>a day written yyyy-mm-dd, with a month from 01 to 12 and a day from 01 to 31\<close>
  "plain_date [y1, y2, y3, y4, d1, m1, m2, d2, a1, a2] =
     (list_all is_digit [y1, y2, y3, y4, m1, m2, a1, a2] \<and> d1 = CHR ''-'' \<and> d2 = CHR ''-'' \<and>
      1 \<le> number [m1, m2] \<and> number [m1, m2] \<le> 12 \<and>
      1 \<le> number [a1, a2] \<and> number [a1, a2] \<le> 31)"
| "plain_date _ = False"

definition days_from_civil :: "int \<Rightarrow> int \<Rightarrow> int \<Rightarrow> int" where
  \<comment> \<open>days from 1970-01-01 to the given day of the Gregorian calendar\<close>
  "days_from_civil y mo d =
     (let y' = (if mo \<le> 2 then y - 1 else y);
          era = y' div 400;
          yoe = y' - era * 400;
          mp = (mo + 9) mod 12;
          doy = (153 * mp + 2) div 5 + d - 1;
          doe = yoe * 365 + yoe div 4 - yoe div 100 + doy
      in era * 146097 + doe - 719468)"

definition date_ms :: "string \<Rightarrow> int option" where
  \<comment> \<open>midnight UTC of a day written yyyy-mm-dd, in milliseconds\<close>
  "date_ms s =
     (if plain_date s
      then Some (86400000 *
             days_from_civil (number (take 4 s)) (number (take 2 (drop 5 s)))
               (number (take 2 (drop 8 s))))
      else None)"

definition sample_lib :: validator_lib where
  \<comment> \<open>stands for validator.js on the requests evaluated below\<close>
  "sample_lib =
     \<lparr>trim = strip, escape = concat \<circ> map escape_char, isISO8601 = plain_date,
      toDate = date_ms\<rparr>"

definition sample_book :: book_doc where
  "sample_book = \<lparr>book_id = ''b1'', title = ''Dune''\<rparr>"

definition sample_copy :: populated where
  "sample_copy =
     \<lparr>doc_id = ''c1'', book = Some sample_book, imprint = Some ''Ace, 1990'',
      status = Some ''Available'', due_back = NoDate\<rparr>"

definition sample_models :: models where
  \<comment> \<open>a storage holding one book and one copy of it, which answers without faults\<close>
  "sample_models =
     \<lparr>new_id = ''c2'',
      bookinstance_url = (\<lambda>i. ''/catalog/bookinstance/'' @ i),
      book_url = (\<lambda>i. ''/catalog/book/'' @ i),
      find_bookinstances = Inr [sample_copy],
      find_populated = (\<lambda>i. Inr (if i = Some ''c1'' then Some sample_copy else None)),
      find_bookinstance =
        (\<lambda>i. Inr (if i = ''c1''
                   then Some \<lparr>doc_id = ''c1'', book = Some ''b1'', imprint = Some ''Ace, 1990'',
                              status = Some ''Available'', due_back = NoDate\<rparr>
                   else None)),
      find_books = Inr [sample_book],
      save = (\<lambda>d. None),
      find_by_id_and_update =
        (\<lambda>i d. Inr (if i = ''c1''
                     then Some \<lparr>doc_id = ''c1'', book = Some ''b1'', imprint = Some ''Ace, 1990'',
                                status = Some ''Available'', due_back = NoDate\<rparr>
                     else None)),
      remove = (\<lambda>d. None),
      lookup_first = True\<rparr>"

definition orphan_copy :: populated where
  \<comment> \<open>a copy whose book reference finds no book: population leaves \<^verbatim>\<open>null\<close>\<close>
  "orphan_copy =
     \<lparr>doc_id = ''c3'', book = None, imprint = Some ''Ace, 1990'',
      status = Some ''Maintenance'', due_back = NoDate\<rparr>"

definition orphan_models :: models where
  \<comment> \<open>the same storage holding that copy as well\<close>
  "orphan_models =
     sample_models
       \<lparr>find_populated :=
          (\<lambda>i. Inr (if i = Some ''c1'' then Some sample_copy
                     else if i = Some ''c3'' then Some orphan_copy else None))\<rparr>"

definition failing_models :: models where
  \<comment> \<open>the same storage when every call reports a fault\<close>
  "failing_models =
     sample_models
       \<lparr>find_bookinstances := Inl ''connection lost'',
        find_books := Inl ''connection lost'',
        find_by_id_and_update := (\<lambda>i d. Inl ''connection lost'')\<rparr>"

definition books_down :: models where
  \<comment> \<open>the same storage when only the query of the book list reports a fault\<close>
  "books_down = sample_models\<lparr>find_books := Inl ''connection lost''\<rparr>"

definition form_request :: "string \<Rightarrow> (string \<times> string) list \<Rightarrow> request" where
  "form_request i submitted = \<lparr>params_id = i, body = map_of submitted\<rparr>"

section \<open>Shared facts\<close>

lemmas chain_defs = validationResult_def run_chain_def book_check_def imprint_check_def
  due_back_check_def run_sanitizers_def to_string_def falsy_def isLength_def

lemmas sample_defs = sample_lib_def sample_models_def books_down_def failing_models_def
  form_request_def sample_copy_def sample_book_def strip_def is_space_def is_digit_def
  date_ms_def days_from_civil_def number_def digit_val_def orphan_models_def orphan_copy_def

lemma book_chain_empty:
  "trim lib [] = [] \<Longrightarrow> falsy (b ''book'') \<Longrightarrow> run_chain (book_check lib) b \<noteq> []"
  by (auto simp: chain_defs split: option.splits)

lemma imprint_chain_empty:
  "trim lib [] = [] \<Longrightarrow> falsy (b ''imprint'') \<Longrightarrow> run_chain (imprint_check lib) b \<noteq> []"
  by (auto simp: chain_defs split: option.splits)

lemma create_post_invalid:
  "validationResult lib (body req) \<noteq> [] \<Longrightarrow>
   bookinstance_create_post lib m req =
     (case find_books m of
        Inl err \<Rightarrow> [Next (StorageFault err)]
      | Inr books \<Rightarrow>
          [Render ''bookinstance_form''
             [(''title'', LStr ''Create BookInstance''), (''book_list'', LBooks books),
              (''errors'', LErrors (validationResult lib (body req))),
              (''bookinstance'', LInstance (new_BookInstance m lib (body req) None))]])"
  by (simp add: bookinstance_create_post_def Let_def)

lemma update_post_invalid:
  "validationResult lib (body req) \<noteq> [] \<Longrightarrow>
   bookinstance_update_post lib m req =
     (case find_books m of
        Inl err \<Rightarrow> [Next (StorageFault err)]
      | Inr books \<Rightarrow>
          [Render ''bookinstance_form''
             [(''title'', LStr ''Create BookInstance''), (''book_list'', LBooks books),
              (''errors'', LErrors (validationResult lib (body req))),
              (''bookinstance'', LInstance (new_BookInstance m lib (body req) (Some (params_id req))))]])"
  by (simp add: bookinstance_update_post_def Let_def)

lemma create_post_valid:
  "validationResult lib (body req) = [] \<Longrightarrow>
   bookinstance_create_post lib m req =
     Save (new_BookInstance m lib (body req) None) #
     (case save m (new_BookInstance m lib (body req) None) of
        Some err \<Rightarrow> [Next (StorageFault err)]
      | None \<Rightarrow> [Redirect (bookinstance_url m (doc_id (new_BookInstance m lib (body req) None)))])"
  by (simp add: bookinstance_create_post_def Let_def)

lemma update_post_valid:
  "validationResult lib (body req) = [] \<Longrightarrow>
   bookinstance_update_post lib m req =
     FindByIdAndUpdate (params_id req) (new_BookInstance m lib (body req) (Some (params_id req))) #
     (case find_by_id_and_update m (params_id req) (new_BookInstance m lib (body req) (Some (params_id req))) of
        Inl err \<Rightarrow> [Next (StorageFault err)]
      | Inr None \<Rightarrow> [Throw (TypeError ''url'')]
      | Inr (Some updatedBookInstance) \<Rightarrow>
          [Redirect (bookinstance_url m (doc_id updatedBookInstance))])"
  by (simp add: bookinstance_update_post_def Let_def)

lemma due_back_chain_invalid:
  "b ''due_back'' = Some s \<Longrightarrow> s \<noteq> [] \<Longrightarrow> \<not> isISO8601 lib s \<Longrightarrow>
   run_chain (due_back_check lib) b = [\<lparr>param = ''due_back'', msg = ''Invalid date'', val = Some s\<rparr>]"
  by (simp add: chain_defs)

lemma due_back_chain_falsy:
  "falsy (b ''due_back'') \<Longrightarrow> run_chain (due_back_check lib) b = []"
  by (auto simp: chain_defs Let_def split: option.splits)

lemma new_BookInstance_fields:
  "doc_id (new_BookInstance m lib b given) = (case given of None \<Rightarrow> new_id m | Some i \<Rightarrow> i)"
  "book (new_BookInstance m lib b given) = map_option (\<lambda>s. escape lib (trim lib s)) (b ''book'')"
  "imprint (new_BookInstance m lib b given) = map_option (\<lambda>s. escape lib (trim lib s)) (b ''imprint'')"
  "status (new_BookInstance m lib b given) = map_option (\<lambda>s. escape lib (trim lib s)) (b ''status'')"
  "due_back (new_BookInstance m lib b given) = sanitize_date lib (b ''due_back'')"
  by (simp_all add: new_BookInstance_def sanitize_text_def sanitizeBody_def run_sanitizers_def
      split: option.splits)

lemma parallel2_absent:
  "parallel2 first (Inr None) rb =
     (case rb of Inl err \<Rightarrow> Inl err | Inr books \<Rightarrow> Inr (None, books))"
  by (simp add: parallel2_def split: sum.splits)

lemma status_not_in_chains:
  "validationResult lib (b(''status'' := v)) = validationResult lib b"
  by (simp add: chain_defs Let_def)

section \<open>Submissions that fail validation\<close>

text \<open>
  C1 (as amended). For every create or update submission in which the book field or the
  imprint field is empty (not submitted, or the empty string), validation fails and the
  handler performs no persistence operation. When the query of the book list for the
  redisplay succeeds, the handler renders the form view with the non-empty list of
  validation errors; when that query reports a fault, the handler forwards the fault to
  the error continuation and renders nothing. The only fact used of the library is that
  trimming the empty string gives the empty string.
\<close>

theorem empty_required_field_rejected:
  assumes "trim lib [] = []"
      and "falsy (body req ''book'') \<or> falsy (body req ''imprint'')"
  shows "validationResult lib (body req) \<noteq> [] \<and>
         filter is_persistence (bookinstance_create_post lib m req) = [] \<and>
         filter is_persistence (bookinstance_update_post lib m req) = [] \<and>
         (case find_books m of
            Inl err \<Rightarrow>
              bookinstance_create_post lib m req = [Next (StorageFault err)] \<and>
              bookinstance_update_post lib m req = [Next (StorageFault err)]
          | Inr books \<Rightarrow>
              list_all is_render (bookinstance_create_post lib m req) \<and>
              list_all is_render (bookinstance_update_post lib m req) \<and>
              shown_errors (bookinstance_create_post lib m req) = validationResult lib (body req) \<and>
              shown_errors (bookinstance_update_post lib m req) = validationResult lib (body req))"
proof -
  have invalid: "validationResult lib (body req) \<noteq> []"
    using assms book_chain_empty [of lib "body req"] imprint_chain_empty [of lib "body req"]
    by (auto simp: validationResult_def)
  show ?thesis
    using invalid
    by (simp add: create_post_invalid update_post_invalid shown_errors_def split: sum.splits)
qed

theorem empty_required_field_rejected_witness:
  "trim sample_lib [] = [] \<and>
   falsy (body (form_request ''c1'' [(''book'', ''''), (''imprint'', ''Ace, 1990'')]) ''book'') \<and>
   shown_errors (bookinstance_create_post sample_lib sample_models
      (form_request ''c1'' [(''book'', ''''), (''imprint'', ''Ace, 1990'')])) =
     [\<lparr>param = ''book'', msg = ''Book must be specified'', val = Some ''''\<rparr>] \<and>
   filter is_persistence (bookinstance_update_post sample_lib sample_models
      (form_request ''c1'' [(''book'', ''''), (''imprint'', ''Ace, 1990'')])) = []"
  using empty_required_field_rejected [of sample_lib
      "form_request ''c1'' [(''book'', ''''), (''imprint'', ''Ace, 1990'')]" sample_models]
  by (simp add: sample_defs chain_defs)

text \<open>
  As stated, C1 promises the redisplay for every such submission. It does not happen when
  the book list cannot be read: the submission below has an empty book field, and the
  handler's only call is the error continuation.
\<close>

theorem empty_book_fetch_fault_counterexample:
  "bookinstance_create_post sample_lib books_down
     (form_request ''c1'' [(''book'', ''''), (''imprint'', ''Ace, 1990'')]) =
     [Next (StorageFault ''connection lost'')] \<and>
   \<not> list_ex is_render (bookinstance_create_post sample_lib books_down
     (form_request ''c1'' [(''book'', ''''), (''imprint'', ''Ace, 1990'')]))"
  by (simp add: bookinstance_create_post_def Let_def sample_defs chain_defs)

text \<open>
  C2 (as amended). For every create or update submission, a due-back value that is
  present, not empty and rejected by the ISO 8601 check yields the validation error
  ``Invalid date'': nothing is persisted, the form is rendered with that message when the
  query of the book list succeeds, and a fault of that query is forwarded instead. A
  submission whose due-back value is absent or empty passes the date check: the date
  contributes no error, and the submission is written to storage exactly when the book
  and imprint checks pass too.
\<close>

theorem due_back_checked_only_when_present:
  assumes "body req ''due_back'' = Some s" and "s \<noteq> []" and "\<not> isISO8601 lib s"
      and "falsy (body req' ''due_back'')"
  shows "\<lparr>param = ''due_back'', msg = ''Invalid date'', val = Some s\<rparr>
           \<in> set (validationResult lib (body req)) \<and>
         filter is_persistence (bookinstance_create_post lib m req) = [] \<and>
         filter is_persistence (bookinstance_update_post lib m req) = [] \<and>
         (case find_books m of
            Inl err \<Rightarrow>
              bookinstance_create_post lib m req = [Next (StorageFault err)] \<and>
              bookinstance_update_post lib m req = [Next (StorageFault err)]
          | Inr books \<Rightarrow>
              list_all is_render (bookinstance_create_post lib m req) \<and>
              list_all is_render (bookinstance_update_post lib m req) \<and>
              \<lparr>param = ''due_back'', msg = ''Invalid date'', val = Some s\<rparr>
                \<in> set (shown_errors (bookinstance_create_post lib m req)) \<and>
              \<lparr>param = ''due_back'', msg = ''Invalid date'', val = Some s\<rparr>
                \<in> set (shown_errors (bookinstance_update_post lib m req))) \<and>
         run_chain (due_back_check lib) (body req') = [] \<and>
         validationResult lib (body req') =
           run_chain (book_check lib) (body req') @ run_chain (imprint_check lib) (body req') \<and>
         written (bookinstance_create_post lib m req') =
           (if run_chain (book_check lib) (body req') = [] \<and>
               run_chain (imprint_check lib) (body req') = []
            then [new_BookInstance m lib (body req') None] else []) \<and>
         written (bookinstance_update_post lib m req') =
           (if run_chain (book_check lib) (body req') = [] \<and>
               run_chain (imprint_check lib) (body req') = []
            then [new_BookInstance m lib (body req') (Some (params_id req'))] else [])"
proof -
  let ?e = "\<lparr>param = ''due_back'', msg = ''Invalid date'', val = Some s\<rparr>"
  have chain: "run_chain (due_back_check lib) (body req) = [?e]"
    using assms(1-3) by (rule due_back_chain_invalid)
  have member: "?e \<in> set (validationResult lib (body req))"
    by (simp add: validationResult_def chain)
  then have invalid: "validationResult lib (body req) \<noteq> []"
    by auto
  have rejected:
    "filter is_persistence (bookinstance_create_post lib m req) = [] \<and>
     filter is_persistence (bookinstance_update_post lib m req) = [] \<and>
     (case find_books m of
        Inl err \<Rightarrow>
          bookinstance_create_post lib m req = [Next (StorageFault err)] \<and>
          bookinstance_update_post lib m req = [Next (StorageFault err)]
      | Inr books \<Rightarrow>
          list_all is_render (bookinstance_create_post lib m req) \<and>
          list_all is_render (bookinstance_update_post lib m req) \<and>
          ?e \<in> set (shown_errors (bookinstance_create_post lib m req)) \<and>
          ?e \<in> set (shown_errors (bookinstance_update_post lib m req)))"
    using invalid member
    by (simp add: create_post_invalid update_post_invalid shown_errors_def split: sum.splits)
  have skipped: "run_chain (due_back_check lib) (body req') = []"
    using assms(4) by (rule due_back_chain_falsy)
  then have rest: "validationResult lib (body req') =
      run_chain (book_check lib) (body req') @ run_chain (imprint_check lib) (body req')"
    by (simp add: validationResult_def)
  have accepted_create: "written (bookinstance_create_post lib m req') =
      (if run_chain (book_check lib) (body req') = [] \<and>
          run_chain (imprint_check lib) (body req') = []
       then [new_BookInstance m lib (body req') None] else [])"
  proof (cases "validationResult lib (body req') = []")
    case True
    then show ?thesis
      using rest by (simp add: create_post_valid written_def split: option.splits)
  next
    case False
    then show ?thesis
      using rest by (auto simp add: create_post_invalid written_def split: sum.splits)
  qed
  have accepted_update: "written (bookinstance_update_post lib m req') =
      (if run_chain (book_check lib) (body req') = [] \<and>
          run_chain (imprint_check lib) (body req') = []
       then [new_BookInstance m lib (body req') (Some (params_id req'))] else [])"
  proof (cases "validationResult lib (body req') = []")
    case True
    then show ?thesis
      using rest by (simp add: update_post_valid written_def split: sum.splits option.splits)
  next
    case False
    then show ?thesis
      using rest by (auto simp add: update_post_invalid written_def split: sum.splits)
  qed
  show ?thesis
    using member rejected skipped rest accepted_create accepted_update by blast
qed

theorem due_back_checked_only_when_present_witness:
  "body (form_request ''c1'' [(''book'', ''b1''), (''imprint'', ''Ace, 1990''), (''due_back'', ''next week'')])
     ''due_back'' = Some ''next week'' \<and>
   \<not> isISO8601 sample_lib ''next week'' \<and>
   falsy (body (form_request ''c1'' [(''book'', ''b1''), (''imprint'', ''Ace, 1990'')]) ''due_back'') \<and>
   shown_errors (bookinstance_create_post sample_lib sample_models
      (form_request ''c1'' [(''book'', ''b1''), (''imprint'', ''Ace, 1990''), (''due_back'', ''next week'')])) =
     [\<lparr>param = ''due_back'', msg = ''Invalid date'', val = Some ''next week''\<rparr>] \<and>
   map doc_id (written (bookinstance_create_post sample_lib sample_models
      (form_request ''c1'' [(''book'', ''b1''), (''imprint'', ''Ace, 1990'')]))) = [''c2'']"
  using due_back_checked_only_when_present [of
      "form_request ''c1'' [(''book'', ''b1''), (''imprint'', ''Ace, 1990''), (''due_back'', ''next week'')]"
      "''next week''" sample_lib
      "form_request ''c1'' [(''book'', ''b1''), (''imprint'', ''Ace, 1990'')]" sample_models]
  by (simp add: sample_defs chain_defs shown_errors_def new_BookInstance_def
      bookinstance_create_post_def Let_def)

text \<open>
  As stated, C2 promises the redisplay with the message for every invalid date. With the
  book list unreadable, the update below is answered by the error continuation alone.
\<close>

theorem invalid_date_fetch_fault_counterexample:
  "bookinstance_update_post sample_lib books_down
     (form_request ''c1'' [(''book'', ''b1''), (''imprint'', ''Ace, 1990''), (''due_back'', ''next week'')]) =
     [Next (StorageFault ''connection lost'')] \<and>
   \<not> list_ex is_render (bookinstance_update_post sample_lib books_down
     (form_request ''c1'' [(''book'', ''b1''), (''imprint'', ''Ace, 1990''), (''due_back'', ''next week'')]))"
  by (simp add: bookinstance_update_post_def Let_def sample_defs chain_defs)

section \<open>Submissions that pass validation\<close>

text \<open>
  C3 (as amended). For every update submission that passes validation, the one record
  handed to the storage layer carries the identity of the request's path parameter, so no
  new identity is minted. When the update reports no fault and answers with the stored
  record of that identity, the handler redirects to the detail location of that identity.
\<close>

theorem update_keeps_identity:
  assumes "validationResult lib (body req) = []"
  shows "map doc_id (written (bookinstance_update_post lib m req)) = [params_id req] \<and>
         filter is_persistence (bookinstance_update_post lib m req) =
           [FindByIdAndUpdate (params_id req)
              (new_BookInstance m lib (body req) (Some (params_id req)))] \<and>
         (find_by_id_and_update m (params_id req)
              (new_BookInstance m lib (body req) (Some (params_id req))) = Inr (Some d) \<and>
          doc_id d = params_id req \<longrightarrow>
          bookinstance_update_post lib m req =
            [FindByIdAndUpdate (params_id req)
               (new_BookInstance m lib (body req) (Some (params_id req))),
             Redirect (bookinstance_url m (params_id req))])"
  using assms
  by (auto simp add: update_post_valid written_def new_BookInstance_fields
      split: sum.splits option.splits)

theorem update_keeps_identity_witness:
  "validationResult sample_lib
     (body (form_request ''c1'' [(''book'', ''b1''), (''imprint'', '' Gollancz ''), (''status'', ''Loaned'')])) = [] \<and>
   bookinstance_update_post sample_lib sample_models
     (form_request ''c1'' [(''book'', ''b1''), (''imprint'', '' Gollancz ''), (''status'', ''Loaned'')]) =
     [FindByIdAndUpdate ''c1''
        \<lparr>doc_id = ''c1'', book = Some ''b1'', imprint = Some ''Gollancz'',
         status = Some ''Loaned'', due_back = NoDate\<rparr>,
      Redirect ''/catalog/bookinstance/c1'']"
  using update_keeps_identity [of sample_lib
      "form_request ''c1'' [(''book'', ''b1''), (''imprint'', '' Gollancz ''), (''status'', ''Loaned'')]"
      sample_models
      "\<lparr>doc_id = ''c1'', book = Some ''b1'', imprint = Some ''Ace, 1990'',
        status = Some ''Available'', due_back = NoDate\<rparr>"]
  by (simp add: sample_defs chain_defs new_BookInstance_def sanitize_text_def sanitizeBody_def
      sanitize_date_def)

text \<open>
  As stated, C3 promises the redirect for every valid update. When the update call
  reports a fault there is none: the handler forwards the fault.
\<close>

theorem update_fault_counterexample:
  "validationResult sample_lib
     (body (form_request ''c1'' [(''book'', ''b1''), (''imprint'', ''Gollancz'')])) = [] \<and>
   \<not> list_ex is_redirect (bookinstance_update_post sample_lib failing_models
     (form_request ''c1'' [(''book'', ''b1''), (''imprint'', ''Gollancz'')]))"
  by (simp add: bookinstance_update_post_def Let_def sample_defs chain_defs)

text \<open>
  C4. For every create submission that passes validation, the handler persists exactly
  one record, the new one built from the sanitized form fields: book, imprint and status
  trimmed and then escaped, and the due-back string converted by \<^verbatim>\<open>toDate\<close> (a Date, \<^verbatim>\<open>null\<close>
  when it does not parse, nothing when no date was submitted). When the save reports no
  fault, the handler's answer is a redirect to the location derived from that record's
  identity.
\<close>

theorem create_persists_once_then_redirects:
  assumes "validationResult lib (body req) = []"
  shows "filter is_persistence (bookinstance_create_post lib m req) =
           [Save (new_BookInstance m lib (body req) None)] \<and>
         book (new_BookInstance m lib (body req) None) =
           map_option (\<lambda>s. escape lib (trim lib s)) (body req ''book'') \<and>
         imprint (new_BookInstance m lib (body req) None) =
           map_option (\<lambda>s. escape lib (trim lib s)) (body req ''imprint'') \<and>
         status (new_BookInstance m lib (body req) None) =
           map_option (\<lambda>s. escape lib (trim lib s)) (body req ''status'') \<and>
         due_back (new_BookInstance m lib (body req) None) =
           (case body req ''due_back'' of
              None \<Rightarrow> NoDate
            | Some s \<Rightarrow> (case toDate lib s of None \<Rightarrow> NullDate | Some d \<Rightarrow> DateAt d)) \<and>
         (save m (new_BookInstance m lib (body req) None) = None \<longrightarrow>
          bookinstance_create_post lib m req =
            [Save (new_BookInstance m lib (body req) None),
             Redirect (bookinstance_url m (doc_id (new_BookInstance m lib (body req) None)))])"
  using assms
  by (auto simp add: create_post_valid new_BookInstance_fields sanitize_date_def
      split: option.splits)

theorem create_persists_once_then_redirects_witness:
  "validationResult sample_lib
     (body (form_request [] [(''book'', ''b1''), (''imprint'', ''<Ace> ''), (''due_back'', ''2020-01-31'')])) = [] \<and>
   save sample_models (new_BookInstance sample_models sample_lib
     (body (form_request [] [(''book'', ''b1''), (''imprint'', ''<Ace> ''), (''due_back'', ''2020-01-31'')])) None) = None \<and>
   bookinstance_create_post sample_lib sample_models
     (form_request [] [(''book'', ''b1''), (''imprint'', ''<Ace> ''), (''due_back'', ''2020-01-31'')]) =
     [Save \<lparr>doc_id = ''c2'', book = Some ''b1'', imprint = Some ''&lt;Ace&gt;'',
            status = None, due_back = DateAt 1580428800000\<rparr>,
      Redirect ''/catalog/bookinstance/c2'']"
  using create_persists_once_then_redirects [of sample_lib
      "form_request [] [(''book'', ''b1''), (''imprint'', ''<Ace> ''), (''due_back'', ''2020-01-31'')]"
      sample_models]
  by (simp add: sample_defs chain_defs new_BookInstance_def sanitize_text_def sanitizeBody_def
      sanitize_date_def)

text \<open>
  C10. The status field takes part in no validation chain. Whatever is submitted as
  status in a submission that passes validation, the submission still passes, and the
  record handed to the storage layer by create and by update holds that status trimmed
  and escaped (or no status, when none was submitted).
\<close>

theorem status_never_validated:
  assumes "validationResult lib (body req) = []"
  shows "validationResult lib ((body req)(''status'' := v)) = [] \<and>
         map status (written (bookinstance_create_post lib m
            (req\<lparr>body := (body req)(''status'' := v)\<rparr>))) =
           [map_option (\<lambda>s. escape lib (trim lib s)) v] \<and>
         map status (written (bookinstance_update_post lib m
            (req\<lparr>body := (body req)(''status'' := v)\<rparr>))) =
           [map_option (\<lambda>s. escape lib (trim lib s)) v]"
proof -
  let ?req = "req\<lparr>body := (body req)(''status'' := v)\<rparr>"
  have valid: "validationResult lib (body ?req) = []"
    using assms by (simp add: status_not_in_chains)
  have "map status (written (bookinstance_create_post lib m ?req)) =
      [map_option (\<lambda>s. escape lib (trim lib s)) v]"
    using valid
    by (simp add: create_post_valid written_def new_BookInstance_fields split: option.splits)
  moreover have "map status (written (bookinstance_update_post lib m ?req)) =
      [map_option (\<lambda>s. escape lib (trim lib s)) v]"
    using valid
    by (simp add: update_post_valid written_def new_BookInstance_fields
        split: sum.splits option.splits)
  ultimately show ?thesis
    using valid by simp
qed

theorem status_never_validated_witness:
  "validationResult sample_lib
     (body (form_request ''c1'' [(''book'', ''b1''), (''imprint'', ''Ace, 1990'')])) = [] \<and>
   map status (written (bookinstance_create_post sample_lib sample_models
     ((form_request ''c1'' [(''book'', ''b1''), (''imprint'', ''Ace, 1990'')])
        \<lparr>body := (body (form_request ''c1'' [(''book'', ''b1''), (''imprint'', ''Ace, 1990'')]))
                  (''status'' := Some '' <no such status> '')\<rparr>))) =
     [Some ''&lt;no such status&gt;'']"
  using status_never_validated [of sample_lib
      "form_request ''c1'' [(''book'', ''b1''), (''imprint'', ''Ace, 1990'')]"
      "Some '' <no such status> ''" sample_models]
  by (simp add: sample_defs chain_defs)


section \<open>Reads of a single record\<close>

text \<open>
  C5 (as amended). When the lookup finds no record for the path identity, the detail
  handler forwards a 404 error to the error continuation, and so does the update form's
  handler provided that its query of the book list reports no fault; when that query
  faults, the fault is forwarded instead. In none of these cases is a view rendered.
\<close>

theorem absent_record_not_found:
  assumes "find_populated m (Some (params_id req)) = Inr None"
      and "find_bookinstance m (params_id req) = Inr None"
  shows "bookinstance_detail m req = [Next (HttpError ''Book copy not found'' 404)] \<and>
         bookinstance_update_get m req =
           (case find_books m of
              Inl err \<Rightarrow> [Next (StorageFault err)]
            | Inr books \<Rightarrow> [Next (HttpError ''Book copy not found'' 404)]) \<and>
         \<not> list_ex is_render (bookinstance_detail m req) \<and>
         \<not> list_ex is_render (bookinstance_update_get m req)"
  using assms
  by (simp add: bookinstance_detail_def bookinstance_update_get_def parallel2_absent
      split: sum.splits)

theorem absent_record_not_found_witness:
  "find_populated sample_models (Some (params_id (form_request ''c9'' []))) = Inr None \<and>
   find_bookinstance sample_models (params_id (form_request ''c9'' [])) = Inr None \<and>
   bookinstance_detail sample_models (form_request ''c9'' []) =
     [Next (HttpError ''Book copy not found'' 404)] \<and>
   bookinstance_update_get sample_models (form_request ''c9'' []) =
     [Next (HttpError ''Book copy not found'' 404)]"
  using absent_record_not_found [of sample_models "form_request ''c9'' []"]
  by (simp add: sample_defs)

text \<open>
  As stated, C5 promises the 404 for every update form read of an absent record. With the
  book list unreadable, what reaches the error continuation is the storage fault.
\<close>

theorem absent_record_fetch_fault_counterexample:
  "find_bookinstance books_down (params_id (form_request ''c9'' [])) = Inr None \<and>
   bookinstance_update_get books_down (form_request ''c9'' []) =
     [Next (StorageFault ''connection lost'')]"
  by (simp add: bookinstance_update_get_def parallel2_def sample_defs)

text \<open>
  C6. In the delete form's read flow, when the lookup finds no record the handler
  redirects to the book list, and then renders the confirmation view all the same, with
  no record: the redirect is not followed by a return.
\<close>

theorem delete_get_absent_still_renders:
  "bookinstance_delete_get sample_models (form_request ''c9'' []) =
     [Redirect ''/catalog/books'',
      Render ''bookinstance_delete''
        [(''title'', LStr ''Delete Book Copy''), (''bookinstance'', LPopulated None)]]"
  by (simp add: bookinstance_delete_get_def sample_defs)

section \<open>The list flow\<close>

text \<open>
  C7. In the list flow a storage fault returned by the fetch of all records is not
  forwarded to the error continuation: the handler has no \<^verbatim>\<open>next\<close> parameter, so on a
  fault it raises a ReferenceError, calls no continuation and renders nothing.
\<close>

theorem list_fault_raises:
  "bookinstance_list failing_models (form_request [] []) = [Throw (ReferenceError ''next'')]"
  by (simp add: bookinstance_list_def failing_models_def sample_models_def)

section \<open>Delete submissions\<close>




text \<open>
  C9. In the delete submit handler, when the lookup answers \<^verbatim>\<open>null\<close> without a fault, the
  handler goes on to read \<^verbatim>\<open>remove\<close> from that \<^verbatim>\<open>null\<close>: the callback raises a TypeError,
  and neither a not-found error, nor a redirect, nor a removal is issued.
\<close>

theorem delete_absent_reads_null:
  assumes "find_populated m (body req ''bookinstanceid'') = Inr None"
  shows "bookinstance_delete_post m req = [Throw (TypeError ''remove'')] \<and>
         \<not> list_ex is_next (bookinstance_delete_post m req) \<and>
         \<not> list_ex is_redirect (bookinstance_delete_post m req) \<and>
         filter is_persistence (bookinstance_delete_post m req) = []"
  using assms by (simp add: bookinstance_delete_post_def)

theorem delete_absent_reads_null_witness:
  "find_populated sample_models (body (form_request [] [(''bookinstanceid'', ''c9'')]) ''bookinstanceid'') =
     Inr None \<and>
   bookinstance_delete_post sample_models (form_request [] [(''bookinstanceid'', ''c9'')]) =
     [Throw (TypeError ''remove'')]"
  using delete_absent_reads_null [of sample_models "form_request [] [(''bookinstanceid'', ''c9'')]"]
  by (simp add: sample_models_def form_request_def)

end
